theory Spec2Isabelle
  imports Main
begin

section \<open>The issuer API views (apps/issuer/api.py)\<close>

text \<open>
  The views of \<^verbatim>\<open>apps/issuer/api.py\<close> are embedded as functions from the database
  state and the request to a result and the new state. An exception that leaves a view
  is the \<open>Inl\<close> of the result; a \<^verbatim>\<open>Response\<close> is the \<open>Inr\<close>.
\<close>

subsection \<open>Data\<close>

text \<open>
  A value of \<^verbatim>\<open>request.data\<close>: a string, an uploaded file (named by its file
  name), or another parsed scalar (\<open>Other\<close>: a number or a boolean; lists and objects
  are not modelled). A key whose value is \<^verbatim>\<open>None\<close> reads like a missing key through
  \<^verbatim>\<open>.get\<close>, so both are \<open>None\<close> of the map.
\<close>

datatype pyvalue = Str string | UploadedFile string | Other

type_synonym payload = "string \<rightharpoonup> pyvalue"

record request =
  user :: string
  data :: payload
  query_params :: "string \<rightharpoonup> string"

record issuer =
  issuer_id :: nat
  issuer_slug :: string

text \<open>
  A badge class row. \<open>recipient_count\<close>, \<open>pathway_element_count\<close> and
  \<open>cached_completion_elements\<close> are the values that the model methods of these names
  return (the model class is not part of the API module); the first two count rows.
  \<open>bc_fields\<close> holds the editable attributes (name, image, criteria, description).
\<close>

record badge_class =
  bc_id :: nat
  bc_slug :: string
  bc_issuer :: nat
  bc_fields :: payload
  recipient_count :: nat
  pathway_element_count :: nat
  cached_completion_elements :: "string list"

record badge_instance =
  bi_id :: nat
  bi_slug :: string
  bi_issuer :: nat
  bi_badgeclass :: nat
  recipient_identifier :: string
  revoked :: bool
  revocation_reason :: "pyvalue option"
  bi_image :: "string option"

record award =
  award_id :: nat
  badge_instance_id :: nat

text \<open>
  The optional \<^verbatim>\<open>badgebook\<close> application: not installed, installed but its models
  cannot be imported, or installed with its table of award records.
\<close>

datatype badgebook_app = NotInstalled | ImportFails | Installed "award list"

datatype event =
    BadgeClassDeletedEvent badge_class string
  | BadgeAssertionRevokedEvent badge_instance string

record state =
  issuers :: "issuer list"
  badgeclasses :: "badge_class list"
  badgeinstances :: "badge_instance list"
  storage :: "string set"
  badgebook :: badgebook_app
  log :: "event list"

datatype error =
    DoesNotExist
  | MultipleObjectsReturned
  | PermissionDenied
  | ValidationError string
  | AttributeError
  | ValueError

text \<open>
  The body of a response. A serializer renders the object it is given; the model keeps
  the object itself as the rendering.
\<close>

datatype body =
    NoBody
  | Text string
  | BadgeClassRep badge_class
  | InstanceRep badge_instance
  | InstanceList "badge_instance list"

datatype response = Response body nat

type_synonym 'a permission = "request \<Rightarrow> 'a \<Rightarrow> bool"

subsection \<open>The framework calls the views make\<close>

text \<open>
  \<^verbatim>\<open>Manager.get(**kwargs)\<close>: the one row that matches; \<^verbatim>\<open>DoesNotExist\<close> when
  none does, \<^verbatim>\<open>MultipleObjectsReturned\<close> when several do.
\<close>

definition orm_get :: "('a \<Rightarrow> bool) \<Rightarrow> 'a list \<Rightarrow> error + 'a" where
  "orm_get P rows =
     (case filter P rows of
        [] \<Rightarrow> Inl DoesNotExist
      | [x] \<Rightarrow> Inr x
      | x # y # zs \<Rightarrow> Inl MultipleObjectsReturned)"

text \<open>
  \<^verbatim>\<open>check_object_permissions(request, obj)\<close>: raises \<^verbatim>\<open>PermissionDenied\<close> when
  a permission class of the view refuses the object. The permission classes
  (\<^verbatim>\<open>MayEditBadgeClass\<close>, \<^verbatim>\<open>MayIssueBadgeClass\<close>, \<^verbatim>\<open>IsStaff\<close>) are not part of the
  API module: their verdict is the parameter \<open>perm\<close>.
\<close>

definition check_object_permissions :: "'a permission \<Rightarrow> request \<Rightarrow> 'a \<Rightarrow> error + unit" where
  "check_object_permissions perm req obj =
     (if perm req obj then Inr () else Inl PermissionDenied)"

text \<open>
  Modelled from the spec: \<^verbatim>\<open>AbstractIssuerAPIEndpoint.get_object\<close> (issuer.api_v1) is
  missing from the sources. The spec: the object "must exist and be resolvable under
  caller's permission scope, else NotFound"; the views test its result against
  \<^verbatim>\<open>None\<close>. So it is the row of the queryset with the slug, when there is one and the
  view's permission classes grant it, and \<^verbatim>\<open>None\<close> otherwise.
\<close>

definition get_object ::
  "('a \<Rightarrow> string) \<Rightarrow> 'a permission \<Rightarrow> request \<Rightarrow> 'a list \<Rightarrow> string \<Rightarrow> 'a option" where
  "get_object slug_of perm req queryset slug =
     (case find (\<lambda>x. slug_of x = slug) queryset of
        None \<Rightarrow> None
      | Some obj \<Rightarrow> (if perm req obj then Some obj else None))"

subsection \<open>BadgeClassDetail\<close>

text \<open>
  The \<^verbatim>\<open>try\<close> block the three methods of \<^verbatim>\<open>BadgeClassDetail\<close> start with:
  \<^verbatim>\<open>BadgeClass.cached.get(slug=badgeSlug)\<close>, then the object permission check.
\<close>

definition lookup_badgeclass ::
  "badge_class permission \<Rightarrow> state \<Rightarrow> request \<Rightarrow> string \<Rightarrow> error + badge_class" where
  "lookup_badgeclass perm s req badgeSlug =
     (case orm_get (\<lambda>b. bc_slug b = badgeSlug) (badgeclasses s) of
        Inl e \<Rightarrow> Inl e
      | Inr current_badgeclass \<Rightarrow>
          (case check_object_permissions perm req current_badgeclass of
             Inl e \<Rightarrow> Inl e
           | Inr u \<Rightarrow> Inr current_badgeclass))"

text \<open>\<^verbatim>\<open>except (BadgeClass.DoesNotExist, PermissionDenied)\<close>\<close>

definition caught :: "error \<Rightarrow> bool" where
  "caught e = (e = DoesNotExist \<or> e = PermissionDenied)"

definition BadgeClassDetail_get ::
  "badge_class permission \<Rightarrow> state \<Rightarrow> request \<Rightarrow> string \<Rightarrow> string
     \<Rightarrow> (error + response) \<times> state" where
  "BadgeClassDetail_get perm s req issuerSlug badgeSlug =
     (case lookup_badgeclass perm s req badgeSlug of
        Inl e \<Rightarrow>
          (if caught e
           then (Inr (Response
                   (Text (''BadgeClass '' @ badgeSlug @ '' could not be found, or inadequate permissions.''))
                   404), s)
           else (Inl e, s))
      | Inr current_badgeclass \<Rightarrow> (Inr (Response (BadgeClassRep current_badgeclass) 200), s))"

definition BadgeClassDetail_delete ::
  "badge_class permission \<Rightarrow> state \<Rightarrow> request \<Rightarrow> string \<Rightarrow> string
     \<Rightarrow> (error + response) \<times> state" where
  "BadgeClassDetail_delete perm s req issuerSlug badgeSlug =
     (case lookup_badgeclass perm s req badgeSlug of
        Inl e \<Rightarrow> (if caught e then (Inr (Response NoBody 404), s) else (Inl e, s))
      | Inr current_badgeclass \<Rightarrow>
          (if recipient_count current_badgeclass > 0
           then (Inr (Response
                   (Text ''Badge could not be deleted. It has already been issued at least once.'')
                   400), s)
           else if pathway_element_count current_badgeclass > 0
           then (Inr (Response
                   (Text ''Badge could not be deleted. It is being used as a pathway completion requirement.'')
                   400), s)
           else if length (cached_completion_elements current_badgeclass) > 0
           then (Inr (Response
                   (Text ''Badge could not be deleted. It is being used as a pathway completion badge.'')
                   400), s)
           else
             (Inr (Response (Text (''Badge '' @ badgeSlug @ '' has been deleted.'')) 200),
              s\<lparr>badgeclasses :=
                   filter (\<lambda>b. bc_id b \<noteq> bc_id current_badgeclass) (badgeclasses s),
                 log := log s @ [BadgeClassDeletedEvent current_badgeclass (user req)]\<rparr>)))"

text \<open>
  Modelled from the spec: \<^verbatim>\<open>BadgeClassSerializerV1\<close> (issuer.serializers_v1) is
  missing from the sources. The spec: the validation subsystem "accepts raw payload +
  context, returns validated representation or raises", and an update runs "full
  validation" on the fields that remain. The verdict of \<^verbatim>\<open>is_valid\<close> is the parameter
  \<open>validation_errors\<close> (\<open>None\<close> when the data is valid, the error detail otherwise);
  \<^verbatim>\<open>save\<close> writes every field of the validated update set onto the badge class and
  stores the row.
\<close>

definition serializer_save :: "badge_class \<Rightarrow> payload \<Rightarrow> badge_class" where
  "serializer_save instance validated = instance\<lparr>bc_fields := bc_fields instance ++ validated\<rparr>"

definition store_badgeclass :: "badge_class \<Rightarrow> state \<Rightarrow> state" where
  "store_badgeclass b s =
     s\<lparr>badgeclasses := map (\<lambda>r. if bc_id r = bc_id b then b else r) (badgeclasses s)\<rparr>"

text \<open>
  Lines 244 to 247 of \<^verbatim>\<open>put\<close>: the image is popped from the copy of the data unless
  it is an \<^verbatim>\<open>UploadedFile\<close> or a string whose URL scheme is \<^verbatim>\<open>data\<close>.
  \<^verbatim>\<open>urlparse.urlparse(new_image).scheme\<close> is the parameter \<open>scheme\<close>, defined on
  strings, where it may raise; on \<^verbatim>\<open>None\<close>, a number or a boolean the call has no
  \<^verbatim>\<open>find\<close> method to use and raises \<^verbatim>\<open>AttributeError\<close>.
\<close>

definition clean_image :: "(string \<Rightarrow> error + string) \<Rightarrow> payload \<Rightarrow> error + payload" where
  "clean_image scheme request_data =
     (case request_data ''image'' of
        Some (UploadedFile f) \<Rightarrow> Inr request_data
      | Some (Str new_image) \<Rightarrow>
          (case scheme new_image of
             Inl e \<Rightarrow> Inl e
           | Inr sch \<Rightarrow>
               (if sch \<noteq> ''data'' then Inr (request_data(''image'' := None))
                else Inr request_data))
      | Some Other \<Rightarrow> Inl AttributeError
      | None \<Rightarrow> Inl AttributeError)"

definition BadgeClassDetail_put ::
  "badge_class permission \<Rightarrow> (string \<Rightarrow> error + string) \<Rightarrow> (badge_class \<Rightarrow> payload \<Rightarrow> string option)
     \<Rightarrow> state \<Rightarrow> request \<Rightarrow> string \<Rightarrow> string \<Rightarrow> (error + response) \<times> state" where
  "BadgeClassDetail_put perm scheme validation_errors s req issuerSlug badgeSlug =
     (case lookup_badgeclass perm s req badgeSlug of
        Inl e \<Rightarrow>
          (if caught e
           then (Inr (Response
                   (Text (''BadgeClass '' @ badgeSlug @ '' could not be found, or inadequate permissions.''))
                   404), s)
           else (Inl e, s))
      | Inr current_badgeclass \<Rightarrow>
          (case clean_image scheme (data req) of
             Inl e \<Rightarrow> (Inl e, s)
           | Inr cleaned_data \<Rightarrow>
               (case validation_errors current_badgeclass cleaned_data of
                  Some detail \<Rightarrow> (Inl (ValidationError detail), s)
                | None \<Rightarrow>
                    (Inr (Response
                            (BadgeClassRep (serializer_save current_badgeclass cleaned_data)) 200),
                     store_badgeclass (serializer_save current_badgeclass cleaned_data) s))))"

subsection \<open>BadgeInstanceList and IssuerBadgeInstanceList\<close>

text \<open>\<^verbatim>\<open>self.queryset.filter(issuer__slug=issuerSlug)\<close> on the badge classes.\<close>

definition badgeclasses_of_issuer_slug :: "state \<Rightarrow> string \<Rightarrow> badge_class list" where
  "badgeclasses_of_issuer_slug s issuerSlug =
     filter (\<lambda>b. list_ex (\<lambda>i. issuer_id i = bc_issuer b \<and> issuer_slug i = issuerSlug) (issuers s))
       (badgeclasses s)"

definition BadgeInstanceList_get ::
  "badge_class permission \<Rightarrow> state \<Rightarrow> request \<Rightarrow> string \<Rightarrow> string
     \<Rightarrow> (error + response) \<times> state" where
  "BadgeInstanceList_get perm s req issuerSlug badgeSlug =
     (case get_object bc_slug perm req (badgeclasses_of_issuer_slug s issuerSlug) badgeSlug of
        None \<Rightarrow>
          (Inr (Response
             (Text (''BadgeClass '' @ badgeSlug @ '' not found or inadequate permissions.'')) 404), s)
      | Some current_badgeclass \<Rightarrow>
          (let badge_instances =
                 filter (\<lambda>i. revoked i = False)
                   (filter (\<lambda>i. bi_badgeclass i = bc_id current_badgeclass) (badgeinstances s))
           in if badge_instances = [] then (Inr (Response (InstanceList []) 200), s)
              else (Inr (Response (InstanceList badge_instances) 200), s)))"

definition IssuerBadgeInstanceList_get ::
  "issuer permission \<Rightarrow> state \<Rightarrow> request \<Rightarrow> string \<Rightarrow> (error + response) \<times> state" where
  "IssuerBadgeInstanceList_get perm s req issuerSlug =
     (case get_object issuer_slug perm req (issuers s) issuerSlug of
        None \<Rightarrow> (Inr (Response NoBody 404), s)
      | Some current_issuer \<Rightarrow>
          (let badgeinstance_set =
                 filter (\<lambda>i. bi_issuer i = issuer_id current_issuer) (badgeinstances s);
               instances =
                 (case query_params req ''recipient'' of
                    Some recipient \<Rightarrow>
                      filter (\<lambda>i. recipient_identifier i = recipient \<and> revoked i = False)
                        badgeinstance_set
                  | None \<Rightarrow> filter (\<lambda>i. revoked i = False) badgeinstance_set)
           in (Inr (Response (InstanceList instances) 200), s)))"

subsection \<open>BadgeInstanceDetail\<close>

definition BadgeInstanceDetail_get ::
  "state \<Rightarrow> request \<Rightarrow> string \<Rightarrow> string \<Rightarrow> string \<Rightarrow> (error + response) \<times> state" where
  "BadgeInstanceDetail_get s req issuerSlug badgeSlug assertionSlug =
     (case orm_get (\<lambda>i. bi_slug i = assertionSlug) (badgeinstances s) of
        Inl e \<Rightarrow> (if caught e then (Inr (Response NoBody 404), s) else (Inl e, s))
      | Inr current_assertion \<Rightarrow> (Inr (Response (InstanceRep current_assertion) 200), s))"

text \<open>\<^verbatim>\<open>Model.save()\<close> of a badge instance: the row with its primary key is rewritten.\<close>

definition save_instance :: "badge_instance \<Rightarrow> state \<Rightarrow> state" where
  "save_instance a s =
     s\<lparr>badgeinstances := map (\<lambda>r. if bi_id r = bi_id a then a else r) (badgeinstances s)\<rparr>"

text \<open>
  \<^verbatim>\<open>current_assertion.image.delete()\<close>: with no file, nothing happens; otherwise the
  file leaves the storage, the field is cleared and the instance is saved.
\<close>

definition image_delete :: "badge_instance \<Rightarrow> state \<Rightarrow> badge_instance \<times> state" where
  "image_delete a s =
     (case bi_image a of
        None \<Rightarrow> (a, s)
      | Some name \<Rightarrow>
          (a\<lparr>bi_image := None\<rparr>,
           save_instance (a\<lparr>bi_image := None\<rparr>) (s\<lparr>storage := storage s - {name}\<rparr>)))"

text \<open>
  Lines 472 to 482 of \<^verbatim>\<open>delete\<close>: the award record of the instance is deleted when
  \<^verbatim>\<open>badgebook\<close> is installed. \<^verbatim>\<open>ImportError\<close> and \<^verbatim>\<open>DoesNotExist\<close> are passed
  over; any other exception of the lookup leaves the view.
\<close>

definition award_cleanup :: "badge_instance \<Rightarrow> state \<Rightarrow> error option \<times> state" where
  "award_cleanup current_assertion s =
     (case badgebook s of
        NotInstalled \<Rightarrow> (None, s)
      | ImportFails \<Rightarrow> (None, s)
      | Installed awards \<Rightarrow>
          (case orm_get (\<lambda>w. badge_instance_id w = bi_id current_assertion) awards of
             Inl e \<Rightarrow> (if e = DoesNotExist then (None, s) else (Some e, s))
           | Inr award \<Rightarrow>
               (None,
                s\<lparr>badgebook := Installed (filter (\<lambda>w. award_id w \<noteq> award_id award) awards)\<rparr>)))"

definition revocation_reason_required :: string where
  "revocation_reason_required =
     ''The parameter revocation_reason is required ''
     @ replicate 34 CHR '' '' @ ''to revoke a badge assertion''"

definition BadgeInstanceDetail_delete ::
  "badge_instance permission \<Rightarrow> state \<Rightarrow> request \<Rightarrow> string \<Rightarrow> string \<Rightarrow> string
     \<Rightarrow> (error + response) \<times> state" where
  "BadgeInstanceDetail_delete perm s req issuerSlug badgeSlug assertionSlug =
     (case data req ''revocation_reason'' of
        None \<Rightarrow> (Inl (ValidationError revocation_reason_required), s)
      | Some reason \<Rightarrow>
          (case get_object bi_slug perm req (badgeinstances s) assertionSlug of
             None \<Rightarrow> (Inr (Response NoBody 404), s)
           | Some current_assertion \<Rightarrow>
               (if revoked current_assertion = True
                then (Inr (Response (Text ''Assertion is already revoked.'') 400), s)
                else
                  (case image_delete
                          (current_assertion\<lparr>revoked := True, revocation_reason := Some reason\<rparr>) s of
                     (a, s1) \<Rightarrow>
                       (case award_cleanup a (save_instance a s1) of
                          (Some e, s2) \<Rightarrow> (Inl e, s2)
                        | (None, s2) \<Rightarrow>
                            (Inr (Response
                                    (Text (''Assertion '' @ bi_slug a @ '' has been revoked.'')) 200),
                             s2\<lparr>log := log s2 @ [BadgeAssertionRevokedEvent a (user req)]\<rparr>))))))"

subsection \<open>What the client receives\<close>

text \<open>
  The status of the HTTP response. The framework turns a \<^verbatim>\<open>ValidationError\<close> that
  leaves a view into a 400 and a \<^verbatim>\<open>PermissionDenied\<close> into a 403; any other exception
  is a server error.
\<close>

definition http_status :: "error + response \<Rightarrow> nat" where
  "http_status r =
     (case r of
        Inr (Response b code) \<Rightarrow> code
      | Inl (ValidationError detail) \<Rightarrow> 400
      | Inl PermissionDenied \<Rightarrow> 403
      | Inl e \<Rightarrow> 500)"

text \<open>
  The assertion as lines 466 to 470 of \<^verbatim>\<open>BadgeInstanceDetail.delete\<close> leave it:
  revoked, with the reason of the request, and without its image.
\<close>

definition revoked_copy :: "badge_instance \<Rightarrow> pyvalue \<Rightarrow> badge_instance" where
  "revoked_copy a reason = a\<lparr>revoked := True, revocation_reason := Some reason, bi_image := None\<rparr>"

subsection \<open>Example data\<close>

text \<open>
  The issuer "acme" with the badge class "excellence", first with no assertion, then with
  the assertions "abc123" (active) and "old999" (revoked), and an award record of the
  companion application for "abc123".
\<close>

definition acme :: issuer where
  "acme = \<lparr>issuer_id = 1, issuer_slug = ''acme''\<rparr>"

definition excellence :: badge_class where
  "excellence =
     \<lparr>bc_id = 10, bc_slug = ''excellence'', bc_issuer = 1,
      bc_fields = [''name'' \<mapsto> Str ''Excellence'', ''image'' \<mapsto> UploadedFile ''excellence.png''],
      recipient_count = 0, pathway_element_count = 0, cached_completion_elements = []\<rparr>"

definition acme_state :: state where
  "acme_state =
     \<lparr>issuers = [acme], badgeclasses = [excellence], badgeinstances = [],
      storage = {}, badgebook = NotInstalled, log = []\<rparr>"

definition editor_request :: request where
  "editor_request = \<lparr>user = ''editor'', data = Map.empty, query_params = Map.empty\<rparr>"

definition allow :: "'a permission" where
  "allow req obj = True"

definition deny :: "'a permission" where
  "deny req obj = False"

definition abc123 :: badge_instance where
  "abc123 =
     \<lparr>bi_id = 100, bi_slug = ''abc123'', bi_issuer = 1, bi_badgeclass = 10,
      recipient_identifier = ''earner@example.org'', revoked = False,
      revocation_reason = None, bi_image = Some ''abc123.png''\<rparr>"

definition old999 :: badge_instance where
  "old999 =
     \<lparr>bi_id = 101, bi_slug = ''old999'', bi_issuer = 1, bi_badgeclass = 10,
      recipient_identifier = ''other@example.org'', revoked = True,
      revocation_reason = Some (Str ''expired''), bi_image = None\<rparr>"

definition issued_excellence :: badge_class where
  "issued_excellence = excellence\<lparr>recipient_count := 2\<rparr>"

definition issued_state :: state where
  "issued_state =
     \<lparr>issuers = [acme], badgeclasses = [issued_excellence], badgeinstances = [abc123, old999],
      storage = {''abc123.png''},
      badgebook = Installed [\<lparr>award_id = 7, badge_instance_id = 100\<rparr>], log = []\<rparr>"


definition revoke_request :: request where
  "revoke_request =
     \<lparr>user = ''editor'', data = [''revocation_reason'' \<mapsto> Str ''policy violation''],
      query_params = Map.empty\<rparr>"

definition recipient_request :: request where
  "recipient_request =
     \<lparr>user = ''staff'', data = Map.empty,
      query_params = [''recipient'' \<mapsto> ''earner@example.org'']\<rparr>"

text \<open>
  Update requests for "excellence": one that sends the image back as a URL, one with no
  image, one with a new image as a data URI. \<open>scheme_by_prefix\<close> gives the URL scheme
  of these example strings, and \<open>accept_all\<close> is a serializer that finds every update
  set valid.
\<close>

definition scheme_by_prefix :: "string \<Rightarrow> error + string" where
  "scheme_by_prefix u =
     (if take 5 u = ''data:'' then Inr ''data''
      else if take 5 u = ''http:'' then Inr ''http''
      else Inr [])"

definition accept_all :: "badge_class \<Rightarrow> payload \<Rightarrow> string option" where
  "accept_all instance d = None"

definition put_url_request :: request where
  "put_url_request =
     \<lparr>user = ''editor'',
      data = [''name'' \<mapsto> Str ''Excellence 2'', ''image'' \<mapsto> Str ''http://example.org/excellence.png''],
      query_params = Map.empty\<rparr>"

definition put_null_image_request :: request where
  "put_null_image_request =
     \<lparr>user = ''editor'', data = [''name'' \<mapsto> Str ''Excellence 2''], query_params = Map.empty\<rparr>"

definition put_data_request :: request where
  "put_data_request =
     \<lparr>user = ''editor'',
      data = [''name'' \<mapsto> Str ''Excellence 2'', ''image'' \<mapsto> Str ''data:image/png;base64,AAAA''],
      query_params = Map.empty\<rparr>"

section \<open>Properties\<close>

subsection \<open>Lookups\<close>

lemma lookup_badgeclass_Inr:
  "lookup_badgeclass perm s req badgeSlug = Inr bc \<longleftrightarrow>
     orm_get (\<lambda>b. bc_slug b = badgeSlug) (badgeclasses s) = Inr bc \<and> perm req bc"
  by (auto simp: lookup_badgeclass_def check_object_permissions_def split: sum.splits)

lemma get_object_Some:
  assumes "get_object slug_of perm req rows slug = Some obj"
  shows "obj \<in> set rows" and "slug_of obj = slug" and "perm req obj"
  using assms
  by (auto simp: get_object_def find_Some_iff split: option.splits if_splits)

lemma orm_get_Inr:
  assumes "orm_get P rows = Inr x"
  shows "x \<in> set rows" and "P x" and "filter P rows = [x]"
proof -
  from assms show f: "filter P rows = [x]"
    by (auto simp: orm_get_def split: list.splits)
  have "x \<in> set (filter P rows)" by (simp add: f)
  then show "x \<in> set rows" and "P x" by auto
qed

subsection \<open>Deleting a badge class\<close>

text \<open>
  C1. For a badge class that the lookup of \<^verbatim>\<open>BadgeClassDetail.delete\<close> finds and the
  caller may edit, the deletion succeeds, with 200 and the message
  "Badge <slug> has been deleted.", if and only if \<open>recipient_count\<close> and
  \<open>pathway_element_count\<close> are 0 and \<open>cached_completion_elements\<close> is empty. Otherwise
  the response is a 400 with the message of the first check that fails, in the order
  recipient count, pathway element count, completion elements, and the state is as it
  was. On success the row is gone and the deletion is logged.
\<close>

theorem badgeclass_delete_preconditions:
  assumes "lookup_badgeclass perm s req badgeSlug = Inr bc"
  shows "(fst (BadgeClassDetail_delete perm s req issuerSlug badgeSlug)
            = Inr (Response (Text (''Badge '' @ badgeSlug @ '' has been deleted.'')) 200)
          \<longleftrightarrow> recipient_count bc = 0 \<and> pathway_element_count bc = 0
               \<and> cached_completion_elements bc = [])
       \<and> (recipient_count bc > 0 \<longrightarrow>
            BadgeClassDetail_delete perm s req issuerSlug badgeSlug
              = (Inr (Response
                   (Text ''Badge could not be deleted. It has already been issued at least once.'')
                   400), s))
       \<and> (recipient_count bc = 0 \<and> pathway_element_count bc > 0 \<longrightarrow>
            BadgeClassDetail_delete perm s req issuerSlug badgeSlug
              = (Inr (Response
                   (Text ''Badge could not be deleted. It is being used as a pathway completion requirement.'')
                   400), s))
       \<and> (recipient_count bc = 0 \<and> pathway_element_count bc = 0
            \<and> cached_completion_elements bc \<noteq> [] \<longrightarrow>
            BadgeClassDetail_delete perm s req issuerSlug badgeSlug
              = (Inr (Response
                   (Text ''Badge could not be deleted. It is being used as a pathway completion badge.'')
                   400), s))
       \<and> (recipient_count bc = 0 \<and> pathway_element_count bc = 0
            \<and> cached_completion_elements bc = [] \<longrightarrow>
            snd (BadgeClassDetail_delete perm s req issuerSlug badgeSlug)
              = s\<lparr>badgeclasses := filter (\<lambda>b. bc_id b \<noteq> bc_id bc) (badgeclasses s),
                  log := log s @ [BadgeClassDeletedEvent bc (user req)]\<rparr>)"
  using assms by (simp add: BadgeClassDetail_delete_def)

theorem badgeclass_delete_preconditions_witness:
  "lookup_badgeclass allow acme_state editor_request ''excellence'' = Inr excellence
   \<and> fst (BadgeClassDetail_delete allow acme_state editor_request ''acme'' ''excellence'')
       = Inr (Response (Text ''Badge excellence has been deleted.'') 200)
   \<and> badgeclasses (snd (BadgeClassDetail_delete allow acme_state editor_request ''acme'' ''excellence''))
       = []
   \<and> lookup_badgeclass allow issued_state editor_request ''excellence'' = Inr issued_excellence
   \<and> BadgeClassDetail_delete allow issued_state editor_request ''acme'' ''excellence''
       = (Inr (Response
            (Text ''Badge could not be deleted. It has already been issued at least once.'') 400),
          issued_state)"
proof -
  have h: "lookup_badgeclass allow acme_state editor_request ''excellence'' = Inr excellence"
    by (simp add: lookup_badgeclass_def orm_get_def check_object_permissions_def allow_def
        acme_state_def excellence_def)
  have z: "recipient_count excellence = 0 \<and> pathway_element_count excellence = 0
           \<and> cached_completion_elements excellence = []"
    by (simp add: excellence_def)
  have h': "lookup_badgeclass allow issued_state editor_request ''excellence'' = Inr issued_excellence"
    by (simp add: lookup_badgeclass_def orm_get_def check_object_permissions_def allow_def
        issued_state_def issued_excellence_def excellence_def)
  have z': "recipient_count issued_excellence > 0"
    by (simp add: issued_excellence_def)
  from badgeclass_delete_preconditions [OF h, of "''acme''"] z h
  have a: "fst (BadgeClassDetail_delete allow acme_state editor_request ''acme'' ''excellence'')
             = Inr (Response (Text ''Badge excellence has been deleted.'') 200)
           \<and> badgeclasses
               (snd (BadgeClassDetail_delete allow acme_state editor_request ''acme'' ''excellence''))
             = []"
    by (simp add: acme_state_def excellence_def)
  from badgeclass_delete_preconditions [OF h', of "''acme''"] z'
  have b: "BadgeClassDetail_delete allow issued_state editor_request ''acme'' ''excellence''
       = (Inr (Response
            (Text ''Badge could not be deleted. It has already been issued at least once.'') 400),
          issued_state)"
    by blast
  from h h' a b show ?thesis by blast
qed

subsection \<open>Revoking an assertion\<close>

lemma image_delete_eq:
  "image_delete a s =
     (a\<lparr>bi_image := None\<rparr>,
      (case bi_image a of None \<Rightarrow> s
       | Some name \<Rightarrow> save_instance (a\<lparr>bi_image := None\<rparr>) (s\<lparr>storage := storage s - {name}\<rparr>)))"
  by (cases "bi_image a") (simp_all add: image_delete_def)

lemma revoke_saved:
  "save_instance (a\<lparr>bi_image := None\<rparr>) (snd (image_delete a s)) =
     s\<lparr>badgeinstances := map (\<lambda>r. if bi_id r = bi_id a then a\<lparr>bi_image := None\<rparr> else r) (badgeinstances s),
       storage := storage s - set_option (bi_image a)\<rparr>"
  by (cases "bi_image a") (simp_all add: image_delete_eq save_instance_def comp_def)

lemma award_cleanup_fields:
  "badgeinstances (snd (award_cleanup a s)) = badgeinstances s"
  "storage (snd (award_cleanup a s)) = storage s"
  "log (snd (award_cleanup a s)) = log s"
  "issuers (snd (award_cleanup a s)) = issuers s"
  "badgeclasses (snd (award_cleanup a s)) = badgeclasses s"
  by (simp_all add: award_cleanup_def split: badgebook_app.splits sum.splits)

lemma revoke_unfold:
  assumes "data req ''revocation_reason'' = Some reason"
      and "get_object bi_slug perm req (badgeinstances s) assertionSlug = Some cur"
      and "\<not> revoked cur"
  shows "BadgeInstanceDetail_delete perm s req issuerSlug badgeSlug assertionSlug =
     (let a = revoked_copy cur reason;
          s1 = s\<lparr>badgeinstances := map (\<lambda>r. if bi_id r = bi_id cur then a else r) (badgeinstances s),
                 storage := storage s - set_option (bi_image cur)\<rparr>;
          c = award_cleanup a s1
      in (case fst c of
            Some e \<Rightarrow> (Inl e, snd c)
          | None \<Rightarrow>
              (Inr (Response (Text (''Assertion '' @ assertionSlug @ '' has been revoked.'')) 200),
               (snd c)\<lparr>log := log s @ [BadgeAssertionRevokedEvent a (user req)]\<rparr>)))"
proof -
  let ?b = "cur\<lparr>revoked := True, revocation_reason := Some reason\<rparr>"
  have slug: "bi_slug cur = assertionSlug"
    using get_object_Some(2) [OF assms(2)] .
  have a: "?b\<lparr>bi_image := None\<rparr> = revoked_copy cur reason"
    by (simp add: revoked_copy_def)
  have s1: "save_instance (revoked_copy cur reason) (snd (image_delete ?b s)) =
      s\<lparr>badgeinstances := map (\<lambda>r. if bi_id r = bi_id cur then revoked_copy cur reason else r) (badgeinstances s),
        storage := storage s - set_option (bi_image cur)\<rparr>"
    using revoke_saved [of ?b s] by (simp add: a)
  have fst_id: "fst (image_delete ?b s) = revoked_copy cur reason"
    by (simp add: image_delete_eq a)
  obtain e s2 where c: "award_cleanup (revoked_copy cur reason)
      (s\<lparr>badgeinstances := map (\<lambda>r. if bi_id r = bi_id cur then revoked_copy cur reason else r) (badgeinstances s),
        storage := storage s - set_option (bi_image cur)\<rparr>) = (e, s2)"
    by (cases "award_cleanup (revoked_copy cur reason)
      (s\<lparr>badgeinstances := map (\<lambda>r. if bi_id r = bi_id cur then revoked_copy cur reason else r) (badgeinstances s),
        storage := storage s - set_option (bi_image cur)\<rparr>)") auto
  have lg: "log s2 = log s"
    using award_cleanup_fields(3) [of "revoked_copy cur reason"
      "s\<lparr>badgeinstances := map (\<lambda>r. if bi_id r = bi_id cur then revoked_copy cur reason else r) (badgeinstances s),
        storage := storage s - set_option (bi_image cur)\<rparr>"] c by simp
  have sl: "bi_slug (revoked_copy cur reason) = assertionSlug"
    by (simp add: revoked_copy_def slug)
  obtain a' s' where id: "image_delete ?b s = (a', s')"
    by (cases "image_delete ?b s") auto
  with fst_id s1 have a': "a' = revoked_copy cur reason"
    and s': "save_instance (revoked_copy cur reason) s' =
      s\<lparr>badgeinstances := map (\<lambda>r. if bi_id r = bi_id cur then revoked_copy cur reason else r) (badgeinstances s),
        storage := storage s - set_option (bi_image cur)\<rparr>"
    by simp_all
  show ?thesis
    using assms(1,2,3) c lg sl
    by (simp add: BadgeInstanceDetail_delete_def id a' s' Let_def split: option.splits)
qed

lemma revoke_instances:
  "badgeinstances (snd (BadgeInstanceDetail_delete perm s req issuerSlug badgeSlug assertionSlug))
     = badgeinstances s
   \<or> (\<exists>reason cur. data req ''revocation_reason'' = Some reason
        \<and> get_object bi_slug perm req (badgeinstances s) assertionSlug = Some cur
        \<and> \<not> revoked cur
        \<and> badgeinstances (snd (BadgeInstanceDetail_delete perm s req issuerSlug badgeSlug assertionSlug))
            = map (\<lambda>r. if bi_id r = bi_id cur then revoked_copy cur reason else r) (badgeinstances s))"
proof (cases "data req ''revocation_reason''")
  case None
  then show ?thesis by (simp add: BadgeInstanceDetail_delete_def)
next
  case (Some reason)
  show ?thesis
  proof (cases "get_object bi_slug perm req (badgeinstances s) assertionSlug")
    case None
    with Some show ?thesis by (simp add: BadgeInstanceDetail_delete_def)
  next
    case (Some cur) note g = this
    show ?thesis
    proof (cases "revoked cur")
      case True
      with g \<open>data req ''revocation_reason'' = Some reason\<close> show ?thesis
        by (simp add: BadgeInstanceDetail_delete_def)
    next
      case False
      have "badgeinstances (snd (BadgeInstanceDetail_delete perm s req issuerSlug badgeSlug assertionSlug))
            = map (\<lambda>r. if bi_id r = bi_id cur then revoked_copy cur reason else r) (badgeinstances s)"
        by (simp add: revoke_unfold [OF \<open>data req ''revocation_reason'' = Some reason\<close> g False]
            Let_def award_cleanup_fields split: option.splits)
      with g False \<open>data req ''revocation_reason'' = Some reason\<close> show ?thesis by blast
    qed
  qed
qed

text \<open>
  C2. When the revocation names a reason and the assertion it resolves is already revoked,
  the response is 400 "Assertion is already revoked." and the state is returned as it was:
  the flag, the reason, the image and everything else. Revocation is terminal: with
  primary keys distinct, a revoked row is still there, unchanged, after any call of the
  revocation, whatever its arguments.
\<close>

theorem revoke_already_revoked:
  assumes "data req ''revocation_reason'' = Some reason"
      and "get_object bi_slug perm req (badgeinstances s) assertionSlug = Some cur"
      and "revoked cur"
  shows "BadgeInstanceDetail_delete perm s req issuerSlug badgeSlug assertionSlug
           = (Inr (Response (Text ''Assertion is already revoked.'') 400), s)
       \<and> (distinct (map bi_id (badgeinstances s)) \<longrightarrow>
           (\<forall>perm' req' i b a. \<forall>x \<in> set (badgeinstances s).
              revoked x \<longrightarrow>
              x \<in> set (badgeinstances (snd (BadgeInstanceDetail_delete perm' s req' i b a)))))"
proof (intro conjI impI allI ballI)
  show "BadgeInstanceDetail_delete perm s req issuerSlug badgeSlug assertionSlug
           = (Inr (Response (Text ''Assertion is already revoked.'') 400), s)"
    using assms by (simp add: BadgeInstanceDetail_delete_def)
next
  fix perm' req' i b a x
  assume d: "distinct (map bi_id (badgeinstances s))"
    and x: "x \<in> set (badgeinstances s)" and r: "revoked x"
  let ?s' = "snd (BadgeInstanceDetail_delete perm' s req' i b a)"
  from revoke_instances [of perm' s req' i b a]
  consider "badgeinstances ?s' = badgeinstances s"
    | reason' cur' where "get_object bi_slug perm' req' (badgeinstances s) a = Some cur'"
        "\<not> revoked cur'"
        "badgeinstances ?s' = map (\<lambda>r. if bi_id r = bi_id cur' then revoked_copy cur' reason' else r) (badgeinstances s)"
    by blast
  then show "x \<in> set (badgeinstances ?s')"
  proof cases
    case 1
    with x show ?thesis by simp
  next
    case 2
    from get_object_Some(1) [OF 2(1)] have c: "cur' \<in> set (badgeinstances s)" .
    from r 2(2) have "x \<noteq> cur'" by auto
    with d x c have ne: "bi_id x \<noteq> bi_id cur'"
      by (meson distinct_map inj_onD)
    let ?f = "\<lambda>r. if bi_id r = bi_id cur' then revoked_copy cur' reason' else r"
    from x have "?f x \<in> ?f ` set (badgeinstances s)" by (rule imageI)
    with \<open>bi_id x \<noteq> bi_id cur'\<close> have "x \<in> ?f ` set (badgeinstances s)" by simp
    with 2(3) show ?thesis by simp
  qed
qed

theorem revoke_already_revoked_witness:
  "data revoke_request ''revocation_reason'' = Some (Str ''policy violation'')
   \<and> get_object bi_slug allow revoke_request (badgeinstances issued_state) ''old999'' = Some old999
   \<and> revoked old999
   \<and> BadgeInstanceDetail_delete allow issued_state revoke_request ''acme'' ''excellence'' ''old999''
       = (Inr (Response (Text ''Assertion is already revoked.'') 400), issued_state)
   \<and> distinct (map bi_id (badgeinstances issued_state))
   \<and> old999 \<in> set (badgeinstances
        (snd (BadgeInstanceDetail_delete allow issued_state revoke_request ''acme'' ''excellence'' ''abc123'')))"
proof -
  have h1: "data revoke_request ''revocation_reason'' = Some (Str ''policy violation'')"
    by (simp add: revoke_request_def)
  have h2: "get_object bi_slug allow revoke_request (badgeinstances issued_state) ''old999'' = Some old999"
    by (simp add: get_object_def issued_state_def abc123_def old999_def allow_def)
  have h3: "revoked old999" by (simp add: old999_def)
  have h4: "distinct (map bi_id (badgeinstances issued_state))"
    by (simp add: issued_state_def abc123_def old999_def)
  have h5: "old999 \<in> set (badgeinstances issued_state)"
    by (simp add: issued_state_def)
  from revoke_already_revoked [OF h1 h2 h3, of "''acme''" "''excellence''"] h1 h2 h3 h4 h5
  show ?thesis by blast
qed

lemma award_cleanup_unique:
  assumes "\<forall>awards. badgebook s = Installed awards \<longrightarrow>
             length (filter (\<lambda>w. badge_instance_id w = bi_id a) awards) \<le> 1"
  shows "fst (award_cleanup a s) = None"
proof (cases "badgebook s")
  case (Installed awards)
  with assms have "length (filter (\<lambda>w. badge_instance_id w = bi_id a) awards) \<le> 1" by simp
  then have "orm_get (\<lambda>w. badge_instance_id w = bi_id a) awards \<noteq> Inl MultipleObjectsReturned
     \<and> (\<forall>e. orm_get (\<lambda>w. badge_instance_id w = bi_id a) awards = Inl e \<longrightarrow> e = DoesNotExist)"
    by (auto simp: orm_get_def split: list.splits)
  with Installed show ?thesis
    by (auto simp: award_cleanup_def split: sum.splits)
qed (simp_all add: award_cleanup_def)

text \<open>
  A revocation that names a reason and resolves an assertion that is not revoked: the
  stored row of the assertion becomes the assertion with \<open>revoked\<close> true, the reason
  of the request and no image, the image file leaves the storage, and nothing else
  changes among the assertions. When at most one award record references the assertion,
  the response is 200 "Assertion <slug> has been revoked." and the revocation is logged.
\<close>

lemma revoke_active_instance:
  assumes "data req ''revocation_reason'' = Some reason"
      and "get_object bi_slug perm req (badgeinstances s) assertionSlug = Some cur"
      and "\<not> revoked cur"
  shows "badgeinstances (snd (BadgeInstanceDetail_delete perm s req issuerSlug badgeSlug assertionSlug))
           = map (\<lambda>r. if bi_id r = bi_id cur
                       then cur\<lparr>revoked := True, revocation_reason := Some reason, bi_image := None\<rparr>
                       else r) (badgeinstances s)
       \<and> cur\<lparr>revoked := True, revocation_reason := Some reason, bi_image := None\<rparr>
           \<in> set (badgeinstances
                   (snd (BadgeInstanceDetail_delete perm s req issuerSlug badgeSlug assertionSlug)))
       \<and> storage (snd (BadgeInstanceDetail_delete perm s req issuerSlug badgeSlug assertionSlug))
           = storage s - set_option (bi_image cur)
       \<and> ((\<forall>awards. badgebook s = Installed awards \<longrightarrow>
              length (filter (\<lambda>w. badge_instance_id w = bi_id cur) awards) \<le> 1) \<longrightarrow>
            fst (BadgeInstanceDetail_delete perm s req issuerSlug badgeSlug assertionSlug)
              = Inr (Response (Text (''Assertion '' @ assertionSlug @ '' has been revoked.'')) 200)
            \<and> log (snd (BadgeInstanceDetail_delete perm s req issuerSlug badgeSlug assertionSlug))
              = log s @ [BadgeAssertionRevokedEvent
                           (cur\<lparr>revoked := True, revocation_reason := Some reason, bi_image := None\<rparr>)
                           (user req)])"
proof -
  let ?a = "revoked_copy cur reason"
  let ?f = "\<lambda>r. if bi_id r = bi_id cur then ?a else r"
  let ?s1 = "s\<lparr>badgeinstances := map ?f (badgeinstances s),
               storage := storage s - set_option (bi_image cur)\<rparr>"
  let ?s' = "snd (BadgeInstanceDetail_delete perm s req issuerSlug badgeSlug assertionSlug)"
  note u = revoke_unfold [OF assms, of issuerSlug badgeSlug]
  have rows: "badgeinstances ?s' = map ?f (badgeinstances s)"
    by (simp add: u Let_def award_cleanup_fields split: option.splits)
  have "cur \<in> set (badgeinstances s)"
    using get_object_Some(1) [OF assms(2)] .
  then have "?f cur \<in> ?f ` set (badgeinstances s)" by (rule imageI)
  then have mem: "?a \<in> set (badgeinstances ?s')" by (simp add: rows)
  have sto: "storage ?s' = storage s - set_option (bi_image cur)"
    by (simp add: u Let_def award_cleanup_fields split: option.splits)
  have ok: "fst (BadgeInstanceDetail_delete perm s req issuerSlug badgeSlug assertionSlug)
              = Inr (Response (Text (''Assertion '' @ assertionSlug @ '' has been revoked.'')) 200)
            \<and> log ?s' = log s @ [BadgeAssertionRevokedEvent ?a (user req)]"
    if "\<forall>awards. badgebook s = Installed awards \<longrightarrow>
              length (filter (\<lambda>w. badge_instance_id w = bi_id cur) awards) \<le> 1"
  proof -
    have "\<forall>awards. badgebook ?s1 = Installed awards \<longrightarrow>
              length (filter (\<lambda>w. badge_instance_id w = bi_id ?a) awards) \<le> 1"
      using that by (simp add: revoked_copy_def)
    then have "fst (award_cleanup ?a ?s1) = None" by (rule award_cleanup_unique)
    then show ?thesis by (simp add: u Let_def)
  qed
  from rows mem sto ok show ?thesis
    unfolding revoked_copy_def by blast
qed

lemma revoke_active_instance_example:
  "data revoke_request ''revocation_reason'' = Some (Str ''policy violation'')
   \<and> get_object bi_slug allow revoke_request (badgeinstances issued_state) ''abc123'' = Some abc123
   \<and> \<not> revoked abc123
   \<and> fst (BadgeInstanceDetail_delete allow issued_state revoke_request ''acme'' ''excellence'' ''abc123'')
       = Inr (Response (Text ''Assertion abc123 has been revoked.'') 200)
   \<and> badgeinstances
       (snd (BadgeInstanceDetail_delete allow issued_state revoke_request ''acme'' ''excellence'' ''abc123''))
       = [abc123\<lparr>revoked := True, revocation_reason := Some (Str ''policy violation''),
                 bi_image := None\<rparr>, old999]
   \<and> storage
       (snd (BadgeInstanceDetail_delete allow issued_state revoke_request ''acme'' ''excellence'' ''abc123''))
       = {}"
proof -
  have h1: "data revoke_request ''revocation_reason'' = Some (Str ''policy violation'')"
    by (simp add: revoke_request_def)
  have h2: "get_object bi_slug allow revoke_request (badgeinstances issued_state) ''abc123'' = Some abc123"
    by (simp add: get_object_def issued_state_def abc123_def allow_def)
  have h3: "\<not> revoked abc123" by (simp add: abc123_def)
  have h4: "\<forall>awards. badgebook issued_state = Installed awards \<longrightarrow>
              length (filter (\<lambda>w. badge_instance_id w = bi_id abc123) awards) \<le> 1"
    by (simp add: issued_state_def abc123_def)
  have rows: "map (\<lambda>r. if bi_id r = bi_id abc123
                       then abc123\<lparr>revoked := True, revocation_reason := Some (Str ''policy violation''), bi_image := None\<rparr>
                       else r) (badgeinstances issued_state)
     = [abc123\<lparr>revoked := True, revocation_reason := Some (Str ''policy violation''),
                 bi_image := None\<rparr>, old999]"
    by (simp add: issued_state_def abc123_def old999_def)
  have sto: "storage issued_state - set_option (bi_image abc123) = {}"
    by (simp add: issued_state_def abc123_def)
  from revoke_active_instance [OF h1 h2 h3, of "''acme''" "''excellence''"] h1 h2 h3 h4 rows sto
  show ?thesis by simp
qed





text \<open>
  C4. A revocation with no \<^verbatim>\<open>revocation_reason\<close> raises the validation error, a 400,
  and returns the state as it was. Nothing is looked up: the result is the same for any
  other state, permission verdict and path.
\<close>

theorem revoke_requires_reason:
  assumes "data req ''revocation_reason'' = None"
  shows "BadgeInstanceDetail_delete perm s req issuerSlug badgeSlug assertionSlug
           = (Inl (ValidationError revocation_reason_required), s)
       \<and> http_status (fst (BadgeInstanceDetail_delete perm s req issuerSlug badgeSlug assertionSlug)) = 400
       \<and> fst (BadgeInstanceDetail_delete perm s req issuerSlug badgeSlug assertionSlug)
           = fst (BadgeInstanceDetail_delete perm' s' req issuerSlug' badgeSlug' assertionSlug')"
  using assms by (simp add: BadgeInstanceDetail_delete_def http_status_def)

theorem revoke_requires_reason_witness:
  "data editor_request ''revocation_reason'' = None
   \<and> BadgeInstanceDetail_delete allow issued_state editor_request ''acme'' ''excellence'' ''abc123''
       = (Inl (ValidationError
            (''The parameter revocation_reason is required ''
             @ ''                                  to revoke a badge assertion'')), issued_state)
   \<and> http_status
       (fst (BadgeInstanceDetail_delete allow issued_state editor_request ''acme'' ''excellence'' ''abc123''))
       = 400
   \<and> fst (BadgeInstanceDetail_delete allow issued_state editor_request ''acme'' ''excellence'' ''abc123'')
       = fst (BadgeInstanceDetail_delete deny acme_state editor_request ''x'' ''y'' ''nothing'')"
proof -
  have h: "data editor_request ''revocation_reason'' = None"
    by (simp add: editor_request_def)
  have m: "revocation_reason_required =
      ''The parameter revocation_reason is required ''
             @ ''                                  to revoke a badge assertion''"
    by (simp add: revocation_reason_required_def eval_nat_numeral)
  note t = revoke_requires_reason [OF h, of allow issued_state "''acme''" "''excellence''" "''abc123''"
      deny acme_state "''x''" "''y''" "''nothing''"]
  from t [unfolded m] h show ?thesis by blast
qed

text \<open>
  The cleanup of award records in a revocation that names a reason and resolves an
  assertion that is not revoked. It is silent when the companion application is not
  installed, when its models cannot be imported, and when no award record references the
  assertion: the response is the 200 of the revocation and the award table is as it was.
  When exactly one award record references the assertion, the response is the same 200
  and the record is deleted.
\<close>

lemma revoke_award_cleanup:
  assumes "data req ''revocation_reason'' = Some reason"
      and "get_object bi_slug perm req (badgeinstances s) assertionSlug = Some cur"
      and "\<not> revoked cur"
  shows "(badgebook s = NotInstalled \<longrightarrow>
            fst (BadgeInstanceDetail_delete perm s req issuerSlug badgeSlug assertionSlug)
              = Inr (Response (Text (''Assertion '' @ assertionSlug @ '' has been revoked.'')) 200)
            \<and> badgebook (snd (BadgeInstanceDetail_delete perm s req issuerSlug badgeSlug assertionSlug))
              = NotInstalled)
       \<and> (badgebook s = ImportFails \<longrightarrow>
            fst (BadgeInstanceDetail_delete perm s req issuerSlug badgeSlug assertionSlug)
              = Inr (Response (Text (''Assertion '' @ assertionSlug @ '' has been revoked.'')) 200)
            \<and> badgebook (snd (BadgeInstanceDetail_delete perm s req issuerSlug badgeSlug assertionSlug))
              = ImportFails)
       \<and> (\<forall>awards. badgebook s = Installed awards
              \<and> filter (\<lambda>w. badge_instance_id w = bi_id cur) awards = [] \<longrightarrow>
            fst (BadgeInstanceDetail_delete perm s req issuerSlug badgeSlug assertionSlug)
              = Inr (Response (Text (''Assertion '' @ assertionSlug @ '' has been revoked.'')) 200)
            \<and> badgebook (snd (BadgeInstanceDetail_delete perm s req issuerSlug badgeSlug assertionSlug))
              = Installed awards)
       \<and> (\<forall>awards w. badgebook s = Installed awards
              \<and> filter (\<lambda>w. badge_instance_id w = bi_id cur) awards = [w] \<longrightarrow>
            fst (BadgeInstanceDetail_delete perm s req issuerSlug badgeSlug assertionSlug)
              = Inr (Response (Text (''Assertion '' @ assertionSlug @ '' has been revoked.'')) 200)
            \<and> badgebook (snd (BadgeInstanceDetail_delete perm s req issuerSlug badgeSlug assertionSlug))
              = Installed (filter (\<lambda>x. award_id x \<noteq> award_id w) awards)
            \<and> w \<notin> set (filter (\<lambda>x. award_id x \<noteq> award_id w) awards))"
proof -
  note u = revoke_unfold [OF assms, of issuerSlug badgeSlug]
  have id: "bi_id (revoked_copy cur reason) = bi_id cur"
    by (simp add: revoked_copy_def)
  show ?thesis
    by (simp add: u Let_def award_cleanup_def orm_get_def id)
qed

lemma revoke_award_cleanup_example:
  "data revoke_request ''revocation_reason'' = Some (Str ''policy violation'')
   \<and> get_object bi_slug allow revoke_request (badgeinstances issued_state) ''abc123'' = Some abc123
   \<and> \<not> revoked abc123
   \<and> badgebook issued_state = Installed [\<lparr>award_id = 7, badge_instance_id = 100\<rparr>]
   \<and> filter (\<lambda>w. badge_instance_id w = bi_id abc123) [\<lparr>award_id = 7, badge_instance_id = 100\<rparr>]
       = [\<lparr>award_id = 7, badge_instance_id = 100\<rparr>]
   \<and> fst (BadgeInstanceDetail_delete allow issued_state revoke_request ''acme'' ''excellence'' ''abc123'')
       = Inr (Response (Text ''Assertion abc123 has been revoked.'') 200)
   \<and> badgebook
       (snd (BadgeInstanceDetail_delete allow issued_state revoke_request ''acme'' ''excellence'' ''abc123''))
       = Installed []
   \<and> fst (BadgeInstanceDetail_delete allow (issued_state\<lparr>badgebook := NotInstalled\<rparr>) revoke_request
             ''acme'' ''excellence'' ''abc123'')
       = Inr (Response (Text ''Assertion abc123 has been revoked.'') 200)
   \<and> badgebook
       (snd (BadgeInstanceDetail_delete allow (issued_state\<lparr>badgebook := NotInstalled\<rparr>) revoke_request
               ''acme'' ''excellence'' ''abc123''))
       = NotInstalled"
proof -
  have h1: "data revoke_request ''revocation_reason'' = Some (Str ''policy violation'')"
    by (simp add: revoke_request_def)
  have h2: "get_object bi_slug allow revoke_request (badgeinstances issued_state) ''abc123'' = Some abc123"
    by (simp add: get_object_def issued_state_def abc123_def allow_def)
  have h2': "get_object bi_slug allow revoke_request
               (badgeinstances (issued_state\<lparr>badgebook := NotInstalled\<rparr>)) ''abc123'' = Some abc123"
    using h2 by simp
  have h3: "\<not> revoked abc123" by (simp add: abc123_def)
  have h4: "badgebook issued_state = Installed [\<lparr>award_id = 7, badge_instance_id = 100\<rparr>]"
    by (simp add: issued_state_def)
  have h5: "filter (\<lambda>w. badge_instance_id w = bi_id abc123) [\<lparr>award_id = 7, badge_instance_id = 100\<rparr>]
       = [\<lparr>award_id = 7, badge_instance_id = 100\<rparr>]"
    by (simp add: abc123_def)
  have h6: "filter (\<lambda>x. award_id x \<noteq> award_id \<lparr>award_id = 7, badge_instance_id = 100\<rparr>)
              [\<lparr>award_id = 7, badge_instance_id = 100\<rparr>] = []"
    by simp
  have h7: "badgebook (issued_state\<lparr>badgebook := NotInstalled\<rparr>) = NotInstalled"
    by simp
  note t = revoke_award_cleanup [OF h1 h2 h3, of "''acme''" "''excellence''"]
  note t' = revoke_award_cleanup [OF h1 h2' h3, of "''acme''" "''excellence''"]
  from t h4 h5 have a:
    "fst (BadgeInstanceDetail_delete allow issued_state revoke_request ''acme'' ''excellence'' ''abc123'')
       = Inr (Response (Text (''Assertion '' @ ''abc123'' @ '' has been revoked.'')) 200)
     \<and> badgebook
       (snd (BadgeInstanceDetail_delete allow issued_state revoke_request ''acme'' ''excellence'' ''abc123''))
       = Installed (filter (\<lambda>x. award_id x \<noteq> award_id \<lparr>award_id = 7, badge_instance_id = 100\<rparr>)
              [\<lparr>award_id = 7, badge_instance_id = 100\<rparr>])"
    by blast
  from t' h7 have b:
    "fst (BadgeInstanceDetail_delete allow (issued_state\<lparr>badgebook := NotInstalled\<rparr>) revoke_request
             ''acme'' ''excellence'' ''abc123'')
       = Inr (Response (Text (''Assertion '' @ ''abc123'' @ '' has been revoked.'')) 200)
     \<and> badgebook
       (snd (BadgeInstanceDetail_delete allow (issued_state\<lparr>badgebook := NotInstalled\<rparr>) revoke_request
               ''acme'' ''excellence'' ''abc123''))
       = NotInstalled"
    by blast
  from a b h1 h2 h3 h4 h5 h6 show ?thesis by simp
qed



subsection \<open>Reading one assertion\<close>

lemma filter_distinct_key:
  "distinct (map f xs) \<Longrightarrow> a \<in> set xs \<Longrightarrow> filter (\<lambda>x. f x = f a) xs = [a]"
proof (induction xs)
  case Nil
  then show ?case by simp
next
  case (Cons x xs)
  show ?case
  proof (cases "x = a")
    case True
    from Cons.prems(1) have "f a \<notin> f ` set xs" using True by simp
    then have "filter (\<lambda>x. f x = f a) xs = []"
      by (force simp: filter_empty_conv image_iff)
    with True show ?thesis by simp
  next
    case False
    with Cons.prems have a: "a \<in> set xs" and d: "distinct (map f xs)" by auto
    from Cons.prems(1) a have "f x \<noteq> f a" by (auto simp: image_iff)
    with Cons.IH [OF d a] show ?thesis by simp
  qed
qed

lemma find_of_filter:
  "filter P xs = x # ys \<Longrightarrow> find P xs = Some x"
  by (induction xs) (auto split: if_splits)

text \<open>
  C9. With slugs unique, the GET of an assertion by the slug of any stored assertion
  answers 200 with the representation of that assertion, revoked or not: the view reads
  the row by its slug and filters nothing. The state is not changed.
\<close>

theorem get_assertion_by_slug:
  assumes "distinct (map bi_slug (badgeinstances s))"
      and "a \<in> set (badgeinstances s)"
  shows "BadgeInstanceDetail_get s req issuerSlug badgeSlug (bi_slug a)
           = (Inr (Response (InstanceRep a) 200), s)"
proof -
  from filter_distinct_key [OF assms]
  have "orm_get (\<lambda>i. bi_slug i = bi_slug a) (badgeinstances s) = Inr a"
    by (simp add: orm_get_def)
  then show ?thesis by (simp add: BadgeInstanceDetail_get_def)
qed

theorem get_assertion_by_slug_witness:
  "distinct (map bi_slug (badgeinstances issued_state))
   \<and> old999 \<in> set (badgeinstances issued_state)
   \<and> revoked old999
   \<and> BadgeInstanceDetail_get issued_state editor_request ''acme'' ''excellence'' ''old999''
       = (Inr (Response (InstanceRep old999) 200), issued_state)"
proof -
  have h1: "distinct (map bi_slug (badgeinstances issued_state))"
    by (simp add: issued_state_def abc123_def old999_def)
  have h2: "old999 \<in> set (badgeinstances issued_state)"
    by (simp add: issued_state_def)
  have h3: "revoked old999" and h4: "bi_slug old999 = ''old999''"
    by (simp_all add: old999_def)
  from get_assertion_by_slug [OF h1 h2, of editor_request "''acme''" "''excellence''"] h1 h2 h3 h4
  show ?thesis by simp
qed

text \<open>
  C10. The GET of one assertion gives the same result for the same assertion slug,
  whatever the issuer slug, the badge slug and the rest of the request, the caller
  included. No object permission is checked: where the permission classes refuse the
  assertion to the caller, so that \<open>get_object\<close> resolves nothing for the revocation,
  the GET still answers 200 with the representation.
\<close>

theorem get_assertion_depends_on_slug_only:
  "BadgeInstanceDetail_get s req issuerSlug badgeSlug assertionSlug
     = BadgeInstanceDetail_get s req' issuerSlug' badgeSlug' assertionSlug
   \<and> (\<forall>perm a. orm_get (\<lambda>i. bi_slug i = assertionSlug) (badgeinstances s) = Inr a
          \<and> \<not> perm req a \<longrightarrow>
        BadgeInstanceDetail_get s req issuerSlug badgeSlug assertionSlug
          = (Inr (Response (InstanceRep a) 200), s)
        \<and> get_object bi_slug perm req (badgeinstances s) assertionSlug = None)"
proof (intro conjI allI impI)
  show "BadgeInstanceDetail_get s req issuerSlug badgeSlug assertionSlug
     = BadgeInstanceDetail_get s req' issuerSlug' badgeSlug' assertionSlug"
    by (simp add: BadgeInstanceDetail_get_def)
next
  fix perm :: "badge_instance permission" and a
  assume h: "orm_get (\<lambda>i. bi_slug i = assertionSlug) (badgeinstances s) = Inr a \<and> \<not> perm req a"
  then show "BadgeInstanceDetail_get s req issuerSlug badgeSlug assertionSlug
          = (Inr (Response (InstanceRep a) 200), s)"
    by (simp add: BadgeInstanceDetail_get_def)
  from h have "filter (\<lambda>i. bi_slug i = assertionSlug) (badgeinstances s) = [a]"
    by (simp add: orm_get_Inr(3))
  then have "find (\<lambda>i. bi_slug i = assertionSlug) (badgeinstances s) = Some a"
    by (rule find_of_filter)
  with h show "get_object bi_slug perm req (badgeinstances s) assertionSlug = None"
    by (simp add: get_object_def)
qed

theorem get_assertion_depends_on_slug_only_witness:
  "BadgeInstanceDetail_get issued_state editor_request ''acme'' ''excellence'' ''abc123''
     = BadgeInstanceDetail_get issued_state
         (editor_request\<lparr>user := ''stranger''\<rparr>) ''other-issuer'' ''other-badge'' ''abc123''
   \<and> orm_get (\<lambda>i. bi_slug i = ''abc123'') (badgeinstances issued_state) = Inr abc123
   \<and> \<not> deny editor_request abc123
   \<and> BadgeInstanceDetail_get issued_state editor_request ''acme'' ''excellence'' ''abc123''
       = (Inr (Response (InstanceRep abc123) 200), issued_state)
   \<and> get_object bi_slug deny editor_request (badgeinstances issued_state) ''abc123'' = None"
proof -
  have h1: "orm_get (\<lambda>i. bi_slug i = ''abc123'') (badgeinstances issued_state) = Inr abc123"
    by (simp add: orm_get_def issued_state_def abc123_def old999_def)
  have h2: "\<not> deny editor_request abc123" by (simp add: deny_def)
  from get_assertion_depends_on_slug_only [of issued_state editor_request "''acme''" "''excellence''"
      "''abc123''" "editor_request\<lparr>user := ''stranger''\<rparr>" "''other-issuer''" "''other-badge''"]
    h1 h2
  show ?thesis by blast
qed

subsection \<open>Listing assertions\<close>

text \<open>
  C5. Whatever list of assertions \<^verbatim>\<open>BadgeInstanceList.get\<close> or
  \<^verbatim>\<open>IssuerBadgeInstanceList.get\<close> returns, no assertion in it is revoked, and when
  the query names a recipient every assertion of the issuer's list has that recipient
  identifier. When the badge class, or the issuer, is resolved, the list is exactly the
  assertions of the badge class, or of the issuer and the recipient, that are not revoked.
\<close>

theorem listings_exclude_revoked:
  "(\<forall>xs code. fst (BadgeInstanceList_get perm s req issuerSlug badgeSlug)
                 = Inr (Response (InstanceList xs) code) \<longrightarrow>
       (\<forall>i \<in> set xs. \<not> revoked i))
   \<and> (\<forall>xs code. fst (IssuerBadgeInstanceList_get perm' s req issuerSlug)
                 = Inr (Response (InstanceList xs) code) \<longrightarrow>
       (\<forall>i \<in> set xs. \<not> revoked i
          \<and> (\<forall>r. query_params req ''recipient'' = Some r \<longrightarrow> recipient_identifier i = r)))
   \<and> (\<forall>bc. get_object bc_slug perm req (badgeclasses_of_issuer_slug s issuerSlug) badgeSlug = Some bc \<longrightarrow>
       BadgeInstanceList_get perm s req issuerSlug badgeSlug
         = (Inr (Response
              (InstanceList (filter (\<lambda>i. bi_badgeclass i = bc_id bc \<and> \<not> revoked i) (badgeinstances s)))
              200), s))
   \<and> (\<forall>iss. get_object issuer_slug perm' req (issuers s) issuerSlug = Some iss \<longrightarrow>
       IssuerBadgeInstanceList_get perm' s req issuerSlug
         = (Inr (Response
              (InstanceList
                 (filter (\<lambda>i. bi_issuer i = issuer_id iss
                              \<and> (case query_params req ''recipient'' of
                                    None \<Rightarrow> True
                                  | Some r \<Rightarrow> recipient_identifier i = r)
                              \<and> \<not> revoked i) (badgeinstances s)))
              200), s))"
proof (intro conjI allI impI ballI)
  fix xs code i
  assume "fst (BadgeInstanceList_get perm s req issuerSlug badgeSlug)
            = Inr (Response (InstanceList xs) code)" and "i \<in> set xs"
  then show "\<not> revoked i"
    by (auto simp: BadgeInstanceList_get_def Let_def split: option.splits if_splits)
next
  fix xs code i
  assume "fst (IssuerBadgeInstanceList_get perm' s req issuerSlug)
            = Inr (Response (InstanceList xs) code)" and "i \<in> set xs"
  then show "\<not> revoked i"
    by (auto simp: IssuerBadgeInstanceList_get_def Let_def split: option.splits)
next
  fix xs code i r
  assume "fst (IssuerBadgeInstanceList_get perm' s req issuerSlug)
            = Inr (Response (InstanceList xs) code)" and "i \<in> set xs"
    and "query_params req ''recipient'' = Some r"
  then show "recipient_identifier i = r"
    by (auto simp: IssuerBadgeInstanceList_get_def Let_def split: option.splits)
next
  fix bc
  assume "get_object bc_slug perm req (badgeclasses_of_issuer_slug s issuerSlug) badgeSlug = Some bc"
  then show "BadgeInstanceList_get perm s req issuerSlug badgeSlug
         = (Inr (Response
              (InstanceList (filter (\<lambda>i. bi_badgeclass i = bc_id bc \<and> \<not> revoked i) (badgeinstances s)))
              200), s)"
    by (simp add: BadgeInstanceList_get_def Let_def)
next
  fix iss
  assume "get_object issuer_slug perm' req (issuers s) issuerSlug = Some iss"
  then show "IssuerBadgeInstanceList_get perm' s req issuerSlug
         = (Inr (Response
              (InstanceList
                 (filter (\<lambda>i. bi_issuer i = issuer_id iss
                              \<and> (case query_params req ''recipient'' of
                                    None \<Rightarrow> True
                                  | Some r \<Rightarrow> recipient_identifier i = r)
                              \<and> \<not> revoked i) (badgeinstances s)))
              200), s)"
    by (simp add: IssuerBadgeInstanceList_get_def Let_def split: option.splits)
qed

theorem listings_exclude_revoked_witness:
  "get_object bc_slug allow editor_request (badgeclasses_of_issuer_slug issued_state ''acme'') ''excellence''
     = Some issued_excellence
   \<and> BadgeInstanceList_get allow issued_state editor_request ''acme'' ''excellence''
       = (Inr (Response (InstanceList [abc123]) 200), issued_state)
   \<and> get_object issuer_slug allow recipient_request (issuers issued_state) ''acme'' = Some acme
   \<and> IssuerBadgeInstanceList_get allow issued_state recipient_request ''acme''
       = (Inr (Response (InstanceList [abc123]) 200), issued_state)
   \<and> revoked old999 \<and> old999 \<in> set (badgeinstances issued_state)"
proof -
  have h1: "get_object bc_slug allow editor_request
              (badgeclasses_of_issuer_slug issued_state ''acme'') ''excellence'' = Some issued_excellence"
    by (simp add: get_object_def badgeclasses_of_issuer_slug_def issued_state_def acme_def
        issued_excellence_def excellence_def allow_def)
  have h2: "get_object issuer_slug allow recipient_request (issuers issued_state) ''acme'' = Some acme"
    by (simp add: get_object_def issued_state_def acme_def allow_def)
  have f1: "filter (\<lambda>i. bi_badgeclass i = bc_id issued_excellence \<and> \<not> revoked i)
              (badgeinstances issued_state) = [abc123]"
    by (simp add: issued_state_def abc123_def old999_def issued_excellence_def excellence_def)
  have f2: "filter (\<lambda>i. bi_issuer i = issuer_id acme
                              \<and> (case query_params recipient_request ''recipient'' of
                                    None \<Rightarrow> True
                                  | Some r \<Rightarrow> recipient_identifier i = r)
                              \<and> \<not> revoked i) (badgeinstances issued_state) = [abc123]"
    by (simp add: issued_state_def abc123_def old999_def acme_def recipient_request_def)
  have h3: "revoked old999" by (simp add: old999_def)
  have h4: "old999 \<in> set (badgeinstances issued_state)" by (simp add: issued_state_def)
  note t1 = listings_exclude_revoked [of allow issued_state editor_request "''acme''" "''excellence''" allow]
  note t2 = listings_exclude_revoked [of allow issued_state recipient_request "''acme''" "''excellence''" allow]
  from t1 h1 have "BadgeInstanceList_get allow issued_state editor_request ''acme'' ''excellence''
       = (Inr (Response (InstanceList (filter (\<lambda>i. bi_badgeclass i = bc_id issued_excellence \<and> \<not> revoked i)
             (badgeinstances issued_state))) 200), issued_state)"
    by blast
  moreover from t2 h2 have "IssuerBadgeInstanceList_get allow issued_state recipient_request ''acme''
       = (Inr (Response (InstanceList (filter (\<lambda>i. bi_issuer i = issuer_id acme
                              \<and> (case query_params recipient_request ''recipient'' of
                                    None \<Rightarrow> True
                                  | Some r \<Rightarrow> recipient_identifier i = r)
                              \<and> \<not> revoked i) (badgeinstances issued_state))) 200), issued_state)"
    by blast
  ultimately show ?thesis using h1 h2 h3 h4 by (simp only: f1 f2)
qed

subsection \<open>Missing and forbidden badge classes\<close>

text \<open>
  C7. For the same request, \<^verbatim>\<open>BadgeClassDetail\<close> answers a badge class that does not
  exist and a badge class that the caller is refused in the same way: GET and PUT with
  the same 404 message, DELETE with the same empty 404. The state is not changed.
\<close>

theorem badgeclass_missing_or_forbidden:
  assumes "orm_get (\<lambda>b. bc_slug b = badgeSlug) (badgeclasses s) = Inl DoesNotExist"
      and "orm_get (\<lambda>b. bc_slug b = badgeSlug) (badgeclasses s') = Inr bc"
      and "\<not> perm' req bc"
  shows "fst (BadgeClassDetail_get perm s req issuerSlug badgeSlug)
           = fst (BadgeClassDetail_get perm' s' req issuerSlug badgeSlug)
       \<and> fst (BadgeClassDetail_get perm' s' req issuerSlug badgeSlug)
           = Inr (Response
               (Text (''BadgeClass '' @ badgeSlug @ '' could not be found, or inadequate permissions.''))
               404)
       \<and> fst (BadgeClassDetail_put perm scheme validation_errors s req issuerSlug badgeSlug)
           = fst (BadgeClassDetail_put perm' scheme validation_errors s' req issuerSlug badgeSlug)
       \<and> fst (BadgeClassDetail_put perm' scheme validation_errors s' req issuerSlug badgeSlug)
           = Inr (Response
               (Text (''BadgeClass '' @ badgeSlug @ '' could not be found, or inadequate permissions.''))
               404)
       \<and> fst (BadgeClassDetail_delete perm s req issuerSlug badgeSlug)
           = fst (BadgeClassDetail_delete perm' s' req issuerSlug badgeSlug)
       \<and> fst (BadgeClassDetail_delete perm' s' req issuerSlug badgeSlug) = Inr (Response NoBody 404)
       \<and> snd (BadgeClassDetail_get perm' s' req issuerSlug badgeSlug) = s'
       \<and> snd (BadgeClassDetail_put perm' scheme validation_errors s' req issuerSlug badgeSlug) = s'
       \<and> snd (BadgeClassDetail_delete perm' s' req issuerSlug badgeSlug) = s'"
proof -
  have la: "lookup_badgeclass perm s req badgeSlug = Inl DoesNotExist"
    using assms(1) by (simp add: lookup_badgeclass_def)
  have lb: "lookup_badgeclass perm' s' req badgeSlug = Inl PermissionDenied"
    using assms(2,3) by (simp add: lookup_badgeclass_def check_object_permissions_def)
  show ?thesis
    by (simp add: BadgeClassDetail_get_def BadgeClassDetail_put_def BadgeClassDetail_delete_def
        la lb caught_def)
qed

theorem badgeclass_missing_or_forbidden_witness:
  "orm_get (\<lambda>b. bc_slug b = ''excellence'') (badgeclasses (acme_state\<lparr>badgeclasses := []\<rparr>))
     = Inl DoesNotExist
   \<and> orm_get (\<lambda>b. bc_slug b = ''excellence'') (badgeclasses acme_state) = Inr excellence
   \<and> \<not> deny editor_request excellence
   \<and> fst (BadgeClassDetail_get allow (acme_state\<lparr>badgeclasses := []\<rparr>) editor_request
            ''acme'' ''excellence'')
       = fst (BadgeClassDetail_get deny acme_state editor_request ''acme'' ''excellence'')
   \<and> fst (BadgeClassDetail_get deny acme_state editor_request ''acme'' ''excellence'')
       = Inr (Response
           (Text ''BadgeClass excellence could not be found, or inadequate permissions.'') 404)
   \<and> fst (BadgeClassDetail_delete allow (acme_state\<lparr>badgeclasses := []\<rparr>) editor_request
            ''acme'' ''excellence'')
       = fst (BadgeClassDetail_delete deny acme_state editor_request ''acme'' ''excellence'')
   \<and> fst (BadgeClassDetail_delete deny acme_state editor_request ''acme'' ''excellence'')
       = Inr (Response NoBody 404)"
proof -
  have h1: "orm_get (\<lambda>b. bc_slug b = ''excellence'')
              (badgeclasses (acme_state\<lparr>badgeclasses := []\<rparr>)) = Inl DoesNotExist"
    by (simp add: orm_get_def)
  have h2: "orm_get (\<lambda>b. bc_slug b = ''excellence'') (badgeclasses acme_state) = Inr excellence"
    by (simp add: orm_get_def acme_state_def excellence_def)
  have h3: "\<not> deny editor_request excellence" by (simp add: deny_def)
  from badgeclass_missing_or_forbidden
         [where perm = allow and perm' = deny and req = editor_request and issuerSlug = "''acme''"
            and scheme = "\<lambda>u. Inr []" and validation_errors = "\<lambda>b d. None", OF h1 h2 h3]
    h1 h2 h3
  show ?thesis by simp
qed

subsection \<open>Updating a badge class\<close>

text \<open>
  What \<^verbatim>\<open>BadgeClassDetail.put\<close> does with the image of the payload, for a badge class
  that is found and may be edited, primary keys being distinct. An image that is neither
  an uploaded file nor a string with the scheme \<^verbatim>\<open>data\<close> is in no update set that
  reaches the serializer, and the stored images are as they were. A string with another
  scheme is popped from the update set, and the update goes on with the other fields. An
  uploaded file or a \<^verbatim>\<open>data\<close> string stays in the update set and, when the update
  set is valid, becomes the stored image of the badge class.
\<close>

lemma clean_image_neither:
  assumes "\<forall>f. request_data ''image'' \<noteq> Some (UploadedFile f)"
      and "\<forall>u. request_data ''image'' = Some (Str u) \<longrightarrow> scheme u \<noteq> Inr ''data''"
      and "clean_image scheme request_data = Inr cleaned"
  shows "cleaned ''image'' = None"
proof (cases "request_data ''image''")
  case None
  with assms(3) show ?thesis by (simp add: clean_image_def)
next
  case (Some img)
  show ?thesis
  proof (cases img)
    case (Str u)
    with Some assms(2) have "scheme u \<noteq> Inr ''data''" by simp
    with Some Str assms(3) show ?thesis
      by (auto simp: clean_image_def split: sum.splits if_splits)
  next
    case (UploadedFile f)
    with Some assms(1) show ?thesis by simp
  next
    case Other
    with Some assms(3) show ?thesis by (simp add: clean_image_def)
  qed
qed

lemma clean_image_kept:
  assumes "request_data ''image'' = Some img"
      and "(\<exists>f. img = UploadedFile f) \<or> (\<exists>u. img = Str u \<and> scheme u = Inr ''data'')"
  shows "clean_image scheme request_data = Inr request_data"
  using assms by (auto simp: clean_image_def)

lemma store_badgeclass_images:
  assumes "distinct (map bc_id (badgeclasses s))"
      and "bc \<in> set (badgeclasses s)"
      and "bc_id b = bc_id bc"
      and "bc_fields b k = bc_fields bc k"
  shows "map (\<lambda>r. bc_fields r k) (badgeclasses (store_badgeclass b s))
           = map (\<lambda>r. bc_fields r k) (badgeclasses s)"
proof -
  have "bc_fields (if bc_id r = bc_id b then b else r) k = bc_fields r k"
    if "r \<in> set (badgeclasses s)" for r
  proof (cases "bc_id r = bc_id b")
    case True
    with assms(3) have "bc_id r = bc_id bc" by simp
    with assms(1,2) that have "r = bc" by (meson distinct_map inj_onD)
    with True assms(4) show ?thesis by simp
  next
    case False
    then show ?thesis by simp
  qed
  then show ?thesis by (simp add: store_badgeclass_def comp_def)
qed

lemma put_images_unchanged:
  assumes "lookup_badgeclass perm s req badgeSlug = Inr bc"
      and "distinct (map bc_id (badgeclasses s))"
      and "\<forall>cleaned. clean_image scheme (data req) = Inr cleaned \<longrightarrow> cleaned ''image'' = None"
  shows "map (\<lambda>b. bc_fields b ''image'')
           (badgeclasses (snd (BadgeClassDetail_put perm scheme validation_errors s req issuerSlug badgeSlug)))
         = map (\<lambda>b. bc_fields b ''image'') (badgeclasses s)"
proof (cases "clean_image scheme (data req)")
  case (Inl e)
  with assms(1) show ?thesis by (simp add: BadgeClassDetail_put_def)
next
  case (Inr cleaned)
  with assms(3) have n: "cleaned ''image'' = None" by simp
  show ?thesis
  proof (cases "validation_errors bc cleaned")
    case (Some detail)
    with Inr assms(1) show ?thesis by (simp add: BadgeClassDetail_put_def)
  next
    case None
    from assms(1) have mem: "bc \<in> set (badgeclasses s)"
      by (auto simp: lookup_badgeclass_Inr dest: orm_get_Inr(1))
    have "bc_id (serializer_save bc cleaned) = bc_id bc"
      and "bc_fields (serializer_save bc cleaned) ''image'' = bc_fields bc ''image''"
      using n by (simp_all add: serializer_save_def map_add_def)
    from store_badgeclass_images [OF assms(2) mem this]
    show ?thesis using None Inr assms(1) by (simp add: BadgeClassDetail_put_def)
  qed
qed

lemma put_image_rule:
  assumes "lookup_badgeclass perm s req badgeSlug = Inr bc"
      and "distinct (map bc_id (badgeclasses s))"
  shows "((\<forall>f. data req ''image'' \<noteq> Some (UploadedFile f))
            \<and> (\<forall>u. data req ''image'' = Some (Str u) \<longrightarrow> scheme u \<noteq> Inr ''data'') \<longrightarrow>
          (\<forall>cleaned. clean_image scheme (data req) = Inr cleaned \<longrightarrow> cleaned ''image'' = None)
          \<and> map (\<lambda>b. bc_fields b ''image'')
               (badgeclasses
                  (snd (BadgeClassDetail_put perm scheme validation_errors s req issuerSlug badgeSlug)))
             = map (\<lambda>b. bc_fields b ''image'') (badgeclasses s))
       \<and> (\<forall>u sch. data req ''image'' = Some (Str u) \<and> scheme u = Inr sch \<and> sch \<noteq> ''data'' \<longrightarrow>
            clean_image scheme (data req) = Inr ((data req)(''image'' := None))
            \<and> (validation_errors bc ((data req)(''image'' := None)) = None \<longrightarrow>
                 fst (BadgeClassDetail_put perm scheme validation_errors s req issuerSlug badgeSlug)
                   = Inr (Response
                       (BadgeClassRep (serializer_save bc ((data req)(''image'' := None)))) 200)))
       \<and> (\<forall>img. data req ''image'' = Some img
              \<and> ((\<exists>f. img = UploadedFile f) \<or> (\<exists>u. img = Str u \<and> scheme u = Inr ''data''))
              \<and> validation_errors bc (data req) = None \<longrightarrow>
            fst (BadgeClassDetail_put perm scheme validation_errors s req issuerSlug badgeSlug)
              = Inr (Response (BadgeClassRep (serializer_save bc (data req))) 200)
            \<and> bc_fields (serializer_save bc (data req)) ''image'' = Some img
            \<and> badgeclasses
                (snd (BadgeClassDetail_put perm scheme validation_errors s req issuerSlug badgeSlug))
              = map (\<lambda>r. if bc_id r = bc_id bc then serializer_save bc (data req) else r)
                  (badgeclasses s)
            \<and> serializer_save bc (data req)
                \<in> set (badgeclasses
                    (snd (BadgeClassDetail_put perm scheme validation_errors s req issuerSlug badgeSlug))))"
proof (intro conjI)
  show "(\<forall>f. data req ''image'' \<noteq> Some (UploadedFile f))
            \<and> (\<forall>u. data req ''image'' = Some (Str u) \<longrightarrow> scheme u \<noteq> Inr ''data'') \<longrightarrow>
          (\<forall>cleaned. clean_image scheme (data req) = Inr cleaned \<longrightarrow> cleaned ''image'' = None)
          \<and> map (\<lambda>b. bc_fields b ''image'')
               (badgeclasses
                  (snd (BadgeClassDetail_put perm scheme validation_errors s req issuerSlug badgeSlug)))
             = map (\<lambda>b. bc_fields b ''image'') (badgeclasses s)"
  proof
    assume n: "(\<forall>f. data req ''image'' \<noteq> Some (UploadedFile f))
            \<and> (\<forall>u. data req ''image'' = Some (Str u) \<longrightarrow> scheme u \<noteq> Inr ''data'')"
    then have c: "\<forall>cleaned. clean_image scheme (data req) = Inr cleaned \<longrightarrow> cleaned ''image'' = None"
      using clean_image_neither [of "data req" scheme] by blast
    from c put_images_unchanged [OF assms c]
    show "(\<forall>cleaned. clean_image scheme (data req) = Inr cleaned \<longrightarrow> cleaned ''image'' = None)
          \<and> map (\<lambda>b. bc_fields b ''image'')
               (badgeclasses
                  (snd (BadgeClassDetail_put perm scheme validation_errors s req issuerSlug badgeSlug)))
             = map (\<lambda>b. bc_fields b ''image'') (badgeclasses s)"
      by blast
  qed
next
  show "\<forall>u sch. data req ''image'' = Some (Str u) \<and> scheme u = Inr sch \<and> sch \<noteq> ''data'' \<longrightarrow>
            clean_image scheme (data req) = Inr ((data req)(''image'' := None))
            \<and> (validation_errors bc ((data req)(''image'' := None)) = None \<longrightarrow>
                 fst (BadgeClassDetail_put perm scheme validation_errors s req issuerSlug badgeSlug)
                   = Inr (Response
                       (BadgeClassRep (serializer_save bc ((data req)(''image'' := None)))) 200))"
    using assms(1) by (simp add: clean_image_def BadgeClassDetail_put_def)
next
  show "\<forall>img. data req ''image'' = Some img
              \<and> ((\<exists>f. img = UploadedFile f) \<or> (\<exists>u. img = Str u \<and> scheme u = Inr ''data''))
              \<and> validation_errors bc (data req) = None \<longrightarrow>
            fst (BadgeClassDetail_put perm scheme validation_errors s req issuerSlug badgeSlug)
              = Inr (Response (BadgeClassRep (serializer_save bc (data req))) 200)
            \<and> bc_fields (serializer_save bc (data req)) ''image'' = Some img
            \<and> badgeclasses
                (snd (BadgeClassDetail_put perm scheme validation_errors s req issuerSlug badgeSlug))
              = map (\<lambda>r. if bc_id r = bc_id bc then serializer_save bc (data req) else r)
                  (badgeclasses s)
            \<and> serializer_save bc (data req)
                \<in> set (badgeclasses
                    (snd (BadgeClassDetail_put perm scheme validation_errors s req issuerSlug badgeSlug)))"
  proof (intro allI impI)
    fix img
    assume h: "data req ''image'' = Some img
              \<and> ((\<exists>f. img = UploadedFile f) \<or> (\<exists>u. img = Str u \<and> scheme u = Inr ''data''))
              \<and> validation_errors bc (data req) = None"
    then have k: "clean_image scheme (data req) = Inr (data req)"
      using clean_image_kept [of "data req" img scheme] by blast
    let ?b = "serializer_save bc (data req)"
    let ?f = "\<lambda>r. if bc_id r = bc_id bc then ?b else r"
    have p: "BadgeClassDetail_put perm scheme validation_errors s req issuerSlug badgeSlug
               = (Inr (Response (BadgeClassRep ?b) 200), store_badgeclass ?b s)"
      using assms(1) h k by (simp add: BadgeClassDetail_put_def)
    have id: "bc_id ?b = bc_id bc" by (simp add: serializer_save_def)
    have rows: "badgeclasses (store_badgeclass ?b s) = map ?f (badgeclasses s)"
      by (simp add: store_badgeclass_def id)
    from assms(1) have "bc \<in> set (badgeclasses s)"
      by (auto simp: lookup_badgeclass_Inr dest: orm_get_Inr(1))
    then have "?f bc \<in> ?f ` set (badgeclasses s)" by (rule imageI)
    then have mem: "?b \<in> set (badgeclasses (store_badgeclass ?b s))" by (simp add: rows)
    have img: "bc_fields ?b ''image'' = Some img"
      using h by (simp add: serializer_save_def map_add_def)
    from p rows mem img
    show "fst (BadgeClassDetail_put perm scheme validation_errors s req issuerSlug badgeSlug)
              = Inr (Response (BadgeClassRep (serializer_save bc (data req))) 200)
            \<and> bc_fields (serializer_save bc (data req)) ''image'' = Some img
            \<and> badgeclasses
                (snd (BadgeClassDetail_put perm scheme validation_errors s req issuerSlug badgeSlug))
              = map (\<lambda>r. if bc_id r = bc_id bc then serializer_save bc (data req) else r)
                  (badgeclasses s)
            \<and> serializer_save bc (data req)
                \<in> set (badgeclasses
                    (snd (BadgeClassDetail_put perm scheme validation_errors s req issuerSlug badgeSlug)))"
      by simp
  qed
qed

lemma put_image_rule_example:
  "lookup_badgeclass allow acme_state put_url_request ''excellence'' = Inr excellence
   \<and> lookup_badgeclass allow acme_state put_data_request ''excellence'' = Inr excellence
   \<and> distinct (map bc_id (badgeclasses acme_state))
   \<and> scheme_by_prefix ''http://example.org/excellence.png'' = Inr ''http''
   \<and> clean_image scheme_by_prefix (data put_url_request)
       = Inr ((data put_url_request)(''image'' := None))
   \<and> map (\<lambda>b. bc_fields b ''image'')
        (badgeclasses
           (snd (BadgeClassDetail_put allow scheme_by_prefix accept_all acme_state put_url_request
                   ''acme'' ''excellence'')))
       = [Some (UploadedFile ''excellence.png'')]
   \<and> scheme_by_prefix ''data:image/png;base64,AAAA'' = Inr ''data''
   \<and> fst (BadgeClassDetail_put allow scheme_by_prefix accept_all acme_state put_data_request
             ''acme'' ''excellence'')
       = Inr (Response (BadgeClassRep (serializer_save excellence (data put_data_request))) 200)
   \<and> map (\<lambda>b. bc_fields b ''image'')
        (badgeclasses
           (snd (BadgeClassDetail_put allow scheme_by_prefix accept_all acme_state put_data_request
                   ''acme'' ''excellence'')))
       = [Some (Str ''data:image/png;base64,AAAA'')]"
proof -
  have l1: "lookup_badgeclass allow acme_state put_url_request ''excellence'' = Inr excellence"
    by (simp add: lookup_badgeclass_def orm_get_def check_object_permissions_def allow_def
        acme_state_def excellence_def)
  have l2: "lookup_badgeclass allow acme_state put_data_request ''excellence'' = Inr excellence"
    by (simp add: lookup_badgeclass_def orm_get_def check_object_permissions_def allow_def
        acme_state_def excellence_def)
  have d: "distinct (map bc_id (badgeclasses acme_state))"
    by (simp add: acme_state_def)
  have i1: "data put_url_request ''image'' = Some (Str ''http://example.org/excellence.png'')"
    by (simp add: put_url_request_def)
  have i2: "data put_data_request ''image'' = Some (Str ''data:image/png;base64,AAAA'')"
    by (simp add: put_data_request_def)
  have s1: "scheme_by_prefix ''http://example.org/excellence.png'' = Inr ''http''"
    by (simp add: scheme_by_prefix_def)
  have s2: "scheme_by_prefix ''data:image/png;base64,AAAA'' = Inr ''data''"
    by (simp add: scheme_by_prefix_def)
  have v: "accept_all excellence (data put_data_request) = None"
    by (simp add: accept_all_def)
  have old: "map (\<lambda>b. bc_fields b ''image'') (badgeclasses acme_state)
               = [Some (UploadedFile ''excellence.png'')]"
    by (simp add: acme_state_def excellence_def)
  note t1 = put_image_rule [OF l1 d, of scheme_by_prefix accept_all "''acme''"]
  note t2 = put_image_rule [OF l2 d, of scheme_by_prefix accept_all "''acme''"]
  have n1: "(\<forall>f. data put_url_request ''image'' \<noteq> Some (UploadedFile f))
            \<and> (\<forall>u. data put_url_request ''image'' = Some (Str u) \<longrightarrow> scheme_by_prefix u \<noteq> Inr ''data'')"
    by (simp add: i1 s1)
  from t1 n1 have a: "map (\<lambda>b. bc_fields b ''image'')
        (badgeclasses
           (snd (BadgeClassDetail_put allow scheme_by_prefix accept_all acme_state put_url_request
                   ''acme'' ''excellence'')))
       = map (\<lambda>b. bc_fields b ''image'') (badgeclasses acme_state)"
    by blast
  from t1 i1 s1 have b: "clean_image scheme_by_prefix (data put_url_request)
       = Inr ((data put_url_request)(''image'' := None))"
    by simp
  have k: "(\<exists>f. Str ''data:image/png;base64,AAAA'' = UploadedFile f)
           \<or> (\<exists>u. Str ''data:image/png;base64,AAAA'' = Str u \<and> scheme_by_prefix u = Inr ''data'')"
    using s2 by simp
  from t2 i2 k v have c: "fst (BadgeClassDetail_put allow scheme_by_prefix accept_all acme_state put_data_request
             ''acme'' ''excellence'')
       = Inr (Response (BadgeClassRep (serializer_save excellence (data put_data_request))) 200)
     \<and> bc_fields (serializer_save excellence (data put_data_request)) ''image''
         = Some (Str ''data:image/png;base64,AAAA'')
     \<and> badgeclasses
          (snd (BadgeClassDetail_put allow scheme_by_prefix accept_all acme_state put_data_request
                  ''acme'' ''excellence''))
         = map (\<lambda>r. if bc_id r = bc_id excellence then serializer_save excellence (data put_data_request) else r)
             (badgeclasses acme_state)"
    by blast
  have e: "map (\<lambda>r. if bc_id r = bc_id excellence then serializer_save excellence (data put_data_request) else r)
             (badgeclasses acme_state) = [serializer_save excellence (data put_data_request)]"
    by (simp add: acme_state_def)
  from c e have f: "map (\<lambda>b. bc_fields b ''image'')
        (badgeclasses
           (snd (BadgeClassDetail_put allow scheme_by_prefix accept_all acme_state put_data_request
                   ''acme'' ''excellence'')))
       = [Some (Str ''data:image/png;base64,AAAA'')]"
    by simp
  from l1 l2 d s1 s2 a b c f old show ?thesis by simp
qed

text \<open>
  C6. The rule of the image holds for strings and uploaded files, as above, but not for
  every update request. The comment of the view says that an image that is neither an
  uploaded file nor a data URI is ignored. When the payload has no image (or a null one),
  or an image that is not a string, \<^verbatim>\<open>urlparse.urlparse\<close> is called on a value with
  no \<^verbatim>\<open>find\<close> method: the view raises \<^verbatim>\<open>AttributeError\<close>, a server error, before
  anything is popped from the update set, and the other fields of the payload are not
  stored either.
\<close>

theorem put_without_image_raises:
  assumes "lookup_badgeclass perm s req badgeSlug = Inr bc"
      and "data req ''image'' = None \<or> data req ''image'' = Some Other"
  shows "clean_image scheme (data req) = Inl AttributeError
       \<and> BadgeClassDetail_put perm scheme validation_errors s req issuerSlug badgeSlug
           = (Inl AttributeError, s)
       \<and> http_status
           (fst (BadgeClassDetail_put perm scheme validation_errors s req issuerSlug badgeSlug)) = 500"
  using assms by (auto simp: BadgeClassDetail_put_def clean_image_def http_status_def)

theorem put_without_image_raises_witness:
  "lookup_badgeclass allow acme_state put_null_image_request ''excellence'' = Inr excellence
   \<and> data put_null_image_request ''image'' = None
   \<and> data put_null_image_request ''name'' = Some (Str ''Excellence 2'')
   \<and> accept_all excellence (data put_null_image_request) = None
   \<and> BadgeClassDetail_put allow scheme_by_prefix accept_all acme_state put_null_image_request
         ''acme'' ''excellence''
       = (Inl AttributeError, acme_state)
   \<and> http_status
       (fst (BadgeClassDetail_put allow scheme_by_prefix accept_all acme_state put_null_image_request
               ''acme'' ''excellence'')) = 500"
proof -
  have l: "lookup_badgeclass allow acme_state put_null_image_request ''excellence'' = Inr excellence"
    by (simp add: lookup_badgeclass_def orm_get_def check_object_permissions_def allow_def
        acme_state_def excellence_def)
  have i: "data put_null_image_request ''image'' = None"
    and n: "data put_null_image_request ''name'' = Some (Str ''Excellence 2'')"
    by (simp_all add: put_null_image_request_def)
  have v: "accept_all excellence (data put_null_image_request) = None"
    by (simp add: accept_all_def)
  from i have j: "data put_null_image_request ''image'' = None
                  \<or> data put_null_image_request ''image'' = Some Other" ..
  from put_without_image_raises [OF l j, of scheme_by_prefix accept_all "''acme''"] l i n v
  show ?thesis by blast
qed

end
